theory Spec2Isabelle
  imports Main
begin

section \<open>The NRF operator charm (src/charm.py)\<close>

text \<open>
  The charm is a set of event handlers over state owned by its collaborators: the Juju
  model (application and model name, relations, unit status, deferred events), the
  workload container behind Pebble (reachability, files, layers, service states) and the
  relation data bag of the \<open>nrf\<close> relation. The handlers are modelled by explicit state
  passing over one record of that state; every call that changes a collaborator is also
  appended to a chronological list of calls, so that order and number of the effects of
  a handler can be stated. A Python exception is a value \<open>Inl e\<close> of the result.
\<close>

subsection \<open>Module constants\<close>

definition BASE_CONFIG_PATH :: string where
  "BASE_CONFIG_PATH = ''/etc/nrf''"

definition CONFIG_FILE_NAME :: string where
  "CONFIG_FILE_NAME = ''nrfcfg.yaml''"

definition DATABASE_NAME :: string where
  "DATABASE_NAME = ''free5gc''"

subsection \<open>Data\<close>

text \<open>The unit status values of \<open>ops.model\<close>; the charm constructs the first three.\<close>

datatype status =
    ActiveStatus
  | BlockedStatus string
  | WaitingStatus string
  | MaintenanceStatus string
  | UnknownStatus

datatype error = ModelError | ConnectionError | RuntimeError | AttributeError | IndexError

text \<open>
  The events the charm observes. A database-created event carries the \<open>uris\<close> field of
  the relation data, which is absent (\<open>None\<close>) when the provider did not set it.
\<close>

datatype event =
    PebbleReadyEvent
  | RelationJoinedEvent string
  | DatabaseCreatedEvent "string option"

text \<open>A Pebble service entry and a Pebble layer, with the keys the charm fills in.\<close>

record service =
  override :: string
  startup :: string
  command :: string
  environment :: "(string \<times> string) list"

record layer =
  summary :: string
  description :: string
  services :: "(string \<times> service) list"

datatype service_status = ACTIVE | INACTIVE | ERROR

record service_info =
  info_name :: string
  current :: service_status

text \<open>
  A template of the config renderer: literal text and variable references. The template
  file \<open>src/templates/nrfcfg.yaml.j2\<close> is a field of the state below, \<open>nrfcfg_yaml_j2\<close>.
\<close>

datatype piece = Text string | Var string

type_synonym template = "piece list"

datatype call =
    SetStatus status
  | Defer event
  | Push string string
  | AddLayer string layer bool
  | Replan
  | SetInfo string string

record world =
  app_name :: string
  model_name :: string
  relations :: "string \<rightharpoonup> nat"
  status :: status
  deferred :: "event list"
  can_connect :: bool
  files :: "string \<rightharpoonup> string"
  layers :: "(string \<times> layer) list"
  service_status :: "string \<rightharpoonup> service_status"
  relation_data :: "string \<Rightarrow> (string \<rightharpoonup> string)"
  nrfcfg_yaml_j2 :: template
  calls :: "call list"

subsection \<open>The collaborators' interfaces\<close>

text \<open>\<open>self.unit.status = st\<close> and \<open>event.defer()\<close>.\<close>

definition set_status :: "status \<Rightarrow> world \<Rightarrow> world" where
  "set_status st w = w\<lparr>status := st, calls := calls w @ [SetStatus st]\<rparr>"

definition event_defer :: "event \<Rightarrow> world \<Rightarrow> world" where
  "event_defer ev w = w\<lparr>deferred := deferred w @ [ev], calls := calls w @ [Defer ev]\<rparr>"

text \<open>
  Python's \<open>d[k] = v\<close> on an insertion-ordered dictionary: an existing key keeps its
  place, a new key goes to the end.
\<close>

fun upsert :: "'k \<Rightarrow> 'v \<Rightarrow> ('k \<times> 'v) list \<Rightarrow> ('k \<times> 'v) list" where
  "upsert k v [] = [(k, v)]"
| "upsert k v ((k', v') # kvs) =
     (if k = k' then (k, v) # kvs else (k', v') # upsert k v kvs)"

text \<open>
  The container operations of \<open>ops.model.Container\<close>. Each of them talks to Pebble and
  raises a connection error when the container cannot be reached. Reachability is a
  field of the state: it does not change while a handler runs, and an operation on a
  reachable container fails only where its definition below says so.
\<close>

definition container_exists :: "string \<Rightarrow> world \<Rightarrow> error + bool" where
  "container_exists path w =
     (if \<not> can_connect w then Inl ConnectionError else Inr (files w path \<noteq> None))"

definition container_push :: "string \<Rightarrow> string \<Rightarrow> world \<Rightarrow> error + world" where
  "container_push path source w =
     (if \<not> can_connect w then Inl ConnectionError
      else Inr (w\<lparr>files := (files w)(path \<mapsto> source),
                   calls := calls w @ [Push path source]\<rparr>))"

text \<open>
  Combining a service into an existing one under \<open>override: merge\<close>: the fields that
  the new entry sets win, the environment is updated key by key.
\<close>

definition merge_service :: "service \<Rightarrow> service \<Rightarrow> service" where
  "merge_service old new =
     \<lparr>override = (if override new = [] then override old else override new),
      startup = (if startup new = [] then startup old else startup new),
      command = (if command new = [] then command old else command new),
      environment = fold (\<lambda>(k, v). upsert k v) (environment new) (environment old)\<rparr>"

fun combine_services ::
  "(string \<times> service) list \<Rightarrow> (string \<times> service) list \<Rightarrow> error + (string \<times> service) list" where
  "combine_services old [] = Inr old"
| "combine_services old ((name, s) # rest) =
     (if override s = ''replace'' then combine_services (upsert name s old) rest
      else if override s = ''merge'' then
        (case map_of old name of
           Some s0 \<Rightarrow> combine_services (upsert name (merge_service s0 s) old) rest
         | None \<Rightarrow> combine_services (upsert name s old) rest)
      else Inl RuntimeError)"

definition container_add_layer :: "string \<Rightarrow> layer \<Rightarrow> bool \<Rightarrow> world \<Rightarrow> error + world" where
  "container_add_layer label l combine w =
     (if \<not> can_connect w then Inl ConnectionError
      else case map_of (layers w) label of
        None \<Rightarrow> Inr (w\<lparr>layers := layers w @ [(label, l)],
                        calls := calls w @ [AddLayer label l combine]\<rparr>)
      | Some old \<Rightarrow>
          if \<not> combine then Inl RuntimeError
          else (case combine_services (services old) (services l) of
             Inl e \<Rightarrow> Inl e
           | Inr svcs \<Rightarrow>
               Inr (w\<lparr>layers := upsert label (old\<lparr>services := svcs\<rparr>) (layers w),
                      calls := calls w @ [AddLayer label l combine]\<rparr>)))"

text \<open>The plan: the services of all layers, a later layer replacing an earlier entry.\<close>

definition get_plan :: "(string \<times> layer) list \<Rightarrow> (string \<times> service) list" where
  "get_plan ls = fold (\<lambda>(label, l). fold (\<lambda>(name, s). upsert name s) (services l)) ls []"

text \<open>Replanning starts the services of the plan whose startup is enabled.\<close>

definition autostart ::
  "(string \<times> service) list \<Rightarrow> (string \<rightharpoonup> service_status) \<Rightarrow> (string \<rightharpoonup> service_status)" where
  "autostart plan st =
     fold (\<lambda>(name, s) m. if startup s = ''enabled'' then m(name \<mapsto> ACTIVE) else m) plan st"

definition container_replan :: "world \<Rightarrow> error + world" where
  "container_replan w =
     (if \<not> can_connect w then Inl ConnectionError
      else Inr (w\<lparr>service_status := autostart (get_plan (layers w)) (service_status w),
                   calls := calls w @ [Replan]\<rparr>))"

text \<open>
  \<open>get_service\<close> raises a model error for a service that is not in the plan; a service
  of the plan that was never started is reported inactive.
\<close>

definition container_get_service :: "string \<Rightarrow> world \<Rightarrow> error + service_info" where
  "container_get_service name w =
     (if \<not> can_connect w then Inl ConnectionError
      else case map_of (get_plan (layers w)) name of
        None \<Rightarrow> Inl ModelError
      | Some s \<Rightarrow>
          Inr \<lparr>info_name = name,
               current = (case service_status w name of None \<Rightarrow> INACTIVE | Some c \<Rightarrow> c)\<rparr>)"

definition is_running :: "service_info \<Rightarrow> bool" where
  "is_running i = (current i = ACTIVE)"

text \<open>
  The config renderer, for templates of text and variables: a variable is replaced by
  its value in the context, an undefined variable by the empty string.
\<close>

definition render :: "template \<Rightarrow> (string \<times> string) list \<Rightarrow> string" where
  "render t ctx =
     concat (map (\<lambda>p. case p of
                         Text s \<Rightarrow> s
                       | Var v \<Rightarrow> (case map_of ctx v of Some x \<Rightarrow> x | None \<Rightarrow> [])) t)"

text \<open>Python's \<open>s.split(sep)\<close> for a one-character separator, and \<open>xs[0]\<close>.\<close>

fun split :: "char \<Rightarrow> string \<Rightarrow> string list" where
  "split sep [] = [[]]"
| "split sep (c # cs) =
     (if c = sep then [] # split sep cs
      else (case split sep cs of
              [] \<Rightarrow> [[c]]
            | word # rest \<Rightarrow> (c # word) # rest))"

definition index0 :: "'a list \<Rightarrow> error + 'a" where
  "index0 xs = (case xs of [] \<Rightarrow> Inl IndexError | x # _ \<Rightarrow> Inr x)"

text \<open>
  \<open>event.uris\<close>: only a database-created event has the attribute, and \<open>None.split\<close>
  raises an attribute error as well.
\<close>

definition event_uris :: "event \<Rightarrow> error + string" where
  "event_uris ev =
     (case ev of DatabaseCreatedEvent (Some u) \<Rightarrow> Inr u | _ \<Rightarrow> Inl AttributeError)"

text \<open>
  Modelled from the spec: \<open>NRFProvides.set_info\<close> of the charm library
  \<open>charms.nrf_operator.v0.nrf\<close>, which is not among the sources. The spec has the
  published payload be the single key \<open>url\<close> in the payload of the named relation.
\<close>

definition set_info :: "string \<Rightarrow> string \<Rightarrow> world \<Rightarrow> world" where
  "set_info relationship_name url w =
     w\<lparr>relation_data := (relation_data w)
          (relationship_name := (relation_data w relationship_name)(''url'' \<mapsto> url)),
       calls := calls w @ [SetInfo relationship_name url]\<rparr>"

subsection \<open>The charm\<close>

definition container_name :: string where
  "container_name = ''nrf''"

definition service_name :: string where
  "service_name = ''nrf''"

definition write_config_file :: "string \<Rightarrow> world \<Rightarrow> error + world" where
  "write_config_file database_url w =
     (let content = render (nrfcfg_yaml_j2 w)
                      [(''database_name'', DATABASE_NAME), (''database_url'', database_url)]
      in container_push (BASE_CONFIG_PATH @ ''/'' @ CONFIG_FILE_NAME) content w)"

definition config_file_is_written :: "world \<Rightarrow> error + bool" where
  "config_file_is_written w =
     (case container_exists (BASE_CONFIG_PATH @ ''/'' @ CONFIG_FILE_NAME) w of
        Inl e \<Rightarrow> Inl e
      | Inr found \<Rightarrow> if \<not> found then Inr False else Inr True)"

definition relation_created :: "string \<Rightarrow> world \<Rightarrow> bool" where
  "relation_created relation_name w =
     (if relations w relation_name = None then False else True)"

definition database_relation_is_created :: "world \<Rightarrow> bool" where
  "database_relation_is_created w = relation_created ''database'' w"

definition environment_variables :: "(string \<times> string) list" where
  "environment_variables =
     [(''GRPC_GO_LOG_VERBOSITY_LEVEL'', ''99''),
      (''GRPC_GO_LOG_SEVERITY_LEVEL'', ''info''),
      (''GRPC_TRACE'', ''all''),
      (''GRPC_VERBOSITY'', ''debug''),
      (''MANAGED_BY_CONFIG_POD'', ''true'')]"

definition pebble_layer :: layer where
  "pebble_layer =
     \<lparr>summary = ''nrf layer'',
      description = ''pebble config layer for nrf'',
      services =
        [(''nrf'',
          \<lparr>override = ''replace'',
           startup = ''enabled'',
           command = ''nrf --nrfcfg '' @ BASE_CONFIG_PATH @ ''/'' @ CONFIG_FILE_NAME,
           environment = environment_variables\<rparr>)]\<rparr>"

definition nrf_url :: "world \<Rightarrow> string" where
  "nrf_url w = ''http://'' @ app_name w @ ''.'' @ model_name w @ ''.svc.cluster.local:29510''"

definition update_nrf_relation :: "world \<Rightarrow> world" where
  "update_nrf_relation w = set_info ''nrf'' (nrf_url w) w"

definition nrf_service_is_running :: "world \<Rightarrow> error + bool" where
  "nrf_service_is_running w =
     (if \<not> can_connect w then Inr False
      else case container_get_service service_name w of
        Inl e \<Rightarrow> if e = ModelError then Inr False else Inl e
      | Inr service \<Rightarrow> if \<not> is_running service then Inr False else Inr True)"

definition on_nrf_pebble_ready :: "event \<Rightarrow> world \<Rightarrow> error + world" where
  "on_nrf_pebble_ready event w =
     (if \<not> database_relation_is_created w then
        Inr (set_status (BlockedStatus ''Waiting for database relation to be created'') w)
      else if \<not> can_connect w then
        Inr (event_defer event (set_status (WaitingStatus ''Waiting for container to be ready'') w))
      else case config_file_is_written w of
        Inl e \<Rightarrow> Inl e
      | Inr written \<Rightarrow>
          if \<not> written then
            Inr (set_status (WaitingStatus ''Waiting for config file to be written'') w)
          else (case container_add_layer ''nrf'' pebble_layer True w of
             Inl e \<Rightarrow> Inl e
           | Inr w1 \<Rightarrow>
               (case container_replan w1 of
                  Inl e \<Rightarrow> Inl e
                | Inr w2 \<Rightarrow> Inr (update_nrf_relation (set_status ActiveStatus w2)))))"

definition on_database_created :: "event \<Rightarrow> world \<Rightarrow> error + world" where
  "on_database_created event w =
     (if \<not> can_connect w then
        Inr (event_defer event (set_status (WaitingStatus ''Waiting for container to be ready'') w))
      else case event_uris event of
        Inl e \<Rightarrow> Inl e
      | Inr uris \<Rightarrow>
          (case index0 (split CHR '','' uris) of
             Inl e \<Rightarrow> Inl e
           | Inr database_url \<Rightarrow>
               (case write_config_file database_url w of
                  Inl e \<Rightarrow> Inl e
                | Inr w1 \<Rightarrow> on_nrf_pebble_ready event w1)))"

definition on_nrf_relation_joined :: "event \<Rightarrow> world \<Rightarrow> error + world" where
  "on_nrf_relation_joined event w =
     (case nrf_service_is_running w of
        Inl e \<Rightarrow> Inl e
      | Inr running \<Rightarrow> if \<not> running then Inr w else Inr (update_nrf_relation w))"

text \<open>
  The observers registered by the constructor: \<open>database_relation_joined\<close> and
  \<open>nrf_pebble_ready\<close> run the convergence routine, \<open>nrf_relation_joined\<close> and
  \<open>database_created\<close> have a handler each; no other event is observed.
\<close>

definition emit :: "event \<Rightarrow> world \<Rightarrow> error + world" where
  "emit ev w =
     (case ev of
        PebbleReadyEvent \<Rightarrow> on_nrf_pebble_ready ev w
      | RelationJoinedEvent r \<Rightarrow>
          if r = ''database'' then on_nrf_pebble_ready ev w
          else if r = ''nrf'' then on_nrf_relation_joined ev w
          else Inr w
      | DatabaseCreatedEvent u \<Rightarrow> on_database_created ev w)"

subsection \<open>Executions\<close>

text \<open>The statuses written by a list of calls, in order.\<close>

fun status_writes :: "call list \<Rightarrow> status list" where
  "status_writes [] = []"
| "status_writes (SetStatus st # cs) = st # status_writes cs"
| "status_writes (c # cs) = status_writes cs"

text \<open>
  Whether every layer of a list of calls is added after the config file has been
  pushed; the flag says whether the file is there before the first call.
\<close>

fun config_before_plan :: "bool \<Rightarrow> call list \<Rightarrow> bool" where
  "config_before_plan written [] = True"
| "config_before_plan written (Push path source # cs) =
     config_before_plan (written \<or> path = ''/etc/nrf/nrfcfg.yaml'') cs"
| "config_before_plan written (AddLayer label l combine # cs) =
     (written \<and> config_before_plan written cs)"
| "config_before_plan written (c # cs) = config_before_plan written cs"

text \<open>
  The executions of a unit. It starts without the config file in the container and
  without any call made. A step is an observed event whose handler runs to completion, or
  a change made by the platform or the workload between two events: such a change is
  arbitrary (relations come and go, the container restarts and loses files, services
  stop, deferred events are taken up again), except that it makes no call of the charm
  and does not create the config file, which only the charm writes.
\<close>

inductive reachable :: "world \<Rightarrow> bool" where
  start: "files w ''/etc/nrf/nrfcfg.yaml'' = None \<Longrightarrow> calls w = [] \<Longrightarrow> reachable w"
| handle: "reachable w \<Longrightarrow> emit ev w = Inr w' \<Longrightarrow> reachable w'"
| environment:
    "reachable w \<Longrightarrow> calls w' = calls w \<Longrightarrow>
     (files w' ''/etc/nrf/nrfcfg.yaml'' \<noteq> None \<longrightarrow> files w ''/etc/nrf/nrfcfg.yaml'' \<noteq> None) \<Longrightarrow>
     reachable w'"

text \<open>
  The layers after \<open>add_layer\<close> with \<open>combine=True\<close> of a layer whose entries all
  replace: a new label is appended, under an existing label the entries are stored by name.
\<close>

definition with_layer ::
  "string \<Rightarrow> layer \<Rightarrow> (string \<times> layer) list \<Rightarrow> (string \<times> layer) list" where
  "with_layer label l ls =
     (case map_of ls label of
        None \<Rightarrow> ls @ [(label, l)]
      | Some old \<Rightarrow>
          upsert label (old\<lparr>services := fold (\<lambda>(n, s). upsert n s) (services l) (services old)\<rparr>) ls)"

subsection \<open>Example states\<close>

text \<open>
  A newly deployed unit of application \<open>nrf\<close> in model \<open>core\<close>: no relation, the
  container not reachable yet and empty; the template is the database part of the
  configuration. The other states are stages of its deployment.
\<close>

definition fresh_unit :: world where
  "fresh_unit =
     \<lparr>app_name = ''nrf'', model_name = ''core'', relations = Map.empty,
      status = MaintenanceStatus [], deferred = [], can_connect = False,
      files = Map.empty, layers = [], service_status = Map.empty,
      relation_data = (\<lambda>r. Map.empty),
      nrfcfg_yaml_j2 =
        [Text ''MongoDBName: '', Var ''database_name'',
         Text '' MongoDBUrl: '', Var ''database_url'', Text '' mongoDBStreamEnable: true''],
      calls = []\<rparr>"

definition related_unit :: world where
  "related_unit = fresh_unit\<lparr>relations := [''database'' \<mapsto> 0]\<rparr>"

definition reachable_unit :: world where
  "reachable_unit = related_unit\<lparr>can_connect := True\<rparr>"

definition configured_unit :: world where
  "configured_unit =
     reachable_unit\<lparr>files := [''/etc/nrf/nrfcfg.yaml'' \<mapsto> ''MongoDBName: free5gc'']\<rparr>"

definition running_unit :: world where
  "running_unit =
     configured_unit\<lparr>layers := [(''nrf'', pebble_layer)],
                      service_status := [''nrf'' \<mapsto> ACTIVE], status := ActiveStatus\<rparr>"

section \<open>Properties\<close>

lemmas handler_defs =
  on_nrf_pebble_ready_def database_relation_is_created_def relation_created_def
  config_file_is_written_def container_exists_def BASE_CONFIG_PATH_def CONFIG_FILE_NAME_def
  set_status_def event_defer_def

text \<open>
  C2: when the database relation is not present, the convergence routine sets the unit
  status to Blocked, with the message about the database relation, and returns, whatever
  the reachability of the container, the config file and the rest of the state are: the
  resulting state differs from the starting one in the status and in the one recorded
  status write only, so no plan is applied and nothing is published.
\<close>

theorem pebble_ready_without_database_relation:
  assumes "relations w ''database'' = None"
  shows "on_nrf_pebble_ready ev w =
           Inr (w\<lparr>status := BlockedStatus ''Waiting for database relation to be created'',
                  calls := calls w @
                    [SetStatus (BlockedStatus ''Waiting for database relation to be created'')]\<rparr>)"
  using assms by (simp add: handler_defs)

theorem pebble_ready_without_database_relation_witness:
  "relations (fresh_unit\<lparr>can_connect := True, files := [''/etc/nrf/nrfcfg.yaml'' \<mapsto> ''x'']\<rparr>)
     ''database'' = None \<and>
   on_nrf_pebble_ready PebbleReadyEvent
     (fresh_unit\<lparr>can_connect := True, files := [''/etc/nrf/nrfcfg.yaml'' \<mapsto> ''x'']\<rparr>) =
   Inr (fresh_unit\<lparr>can_connect := True, files := [''/etc/nrf/nrfcfg.yaml'' \<mapsto> ''x''],
          status := BlockedStatus ''Waiting for database relation to be created'',
          calls := [SetStatus (BlockedStatus ''Waiting for database relation to be created'')]\<rparr>)"
  using pebble_ready_without_database_relation
    [of "fresh_unit\<lparr>can_connect := True, files := [''/etc/nrf/nrfcfg.yaml'' \<mapsto> ''x'']\<rparr>"
        PebbleReadyEvent]
  by (simp add: fresh_unit_def)

text \<open>
  C3: when the database relation is present and the container is not reachable, the
  convergence routine sets the unit status to Waiting (for the container), defers the
  event it was called with and returns: nothing else of the state changes, so no plan is
  applied and nothing is published.
\<close>

theorem pebble_ready_container_unreachable:
  assumes "relations w ''database'' \<noteq> None" and "\<not> can_connect w"
  shows "on_nrf_pebble_ready ev w =
           Inr (w\<lparr>status := WaitingStatus ''Waiting for container to be ready'',
                  deferred := deferred w @ [ev],
                  calls := calls w @
                    [SetStatus (WaitingStatus ''Waiting for container to be ready''), Defer ev]\<rparr>)"
  using assms by (auto simp add: handler_defs)

theorem pebble_ready_container_unreachable_witness:
  "relations related_unit ''database'' \<noteq> None \<and> \<not> can_connect related_unit \<and>
   on_nrf_pebble_ready (RelationJoinedEvent ''database'') related_unit =
   Inr (related_unit\<lparr>status := WaitingStatus ''Waiting for container to be ready'',
          deferred := [RelationJoinedEvent ''database''],
          calls := [SetStatus (WaitingStatus ''Waiting for container to be ready''),
                    Defer (RelationJoinedEvent ''database'')]\<rparr>)"
  using pebble_ready_container_unreachable [of related_unit "RelationJoinedEvent ''database''"]
  by (simp add: related_unit_def fresh_unit_def)

text \<open>
  C8: when the database relation is present, the container is reachable and the config
  file does not exist in it, the convergence routine sets the unit status to Waiting (for
  the config file) and returns: the files, the deferred events, the layers and the
  relation data are as before, and the status write is the only call made.
\<close>

theorem pebble_ready_config_file_missing:
  assumes "relations w ''database'' \<noteq> None" and "can_connect w"
    and "files w ''/etc/nrf/nrfcfg.yaml'' = None"
  shows "on_nrf_pebble_ready ev w =
           Inr (w\<lparr>status := WaitingStatus ''Waiting for config file to be written'',
                  calls := calls w @
                    [SetStatus (WaitingStatus ''Waiting for config file to be written'')]\<rparr>)"
  using assms by (auto simp add: handler_defs)

theorem pebble_ready_config_file_missing_witness:
  "relations reachable_unit ''database'' \<noteq> None \<and> can_connect reachable_unit \<and>
   files reachable_unit ''/etc/nrf/nrfcfg.yaml'' = None \<and>
   on_nrf_pebble_ready PebbleReadyEvent reachable_unit =
   Inr (reachable_unit\<lparr>status := WaitingStatus ''Waiting for config file to be written'',
          calls := [SetStatus (WaitingStatus ''Waiting for config file to be written'')]\<rparr>)"
  using pebble_ready_config_file_missing [of reachable_unit PebbleReadyEvent]
  by (simp add: reachable_unit_def related_unit_def fresh_unit_def)

subsection \<open>Ordered dictionaries\<close>

lemma map_of_upsert_same: "map_of (upsert k v kvs) k = Some v"
  by (induction kvs) auto

lemma upsert_present: "map_of kvs k = Some v \<Longrightarrow> upsert k v kvs = kvs"
  by (induction kvs) (auto split: if_splits)

subsection \<open>Adding the layer\<close>

lemma services_pebble_layer:
  "services pebble_layer =
     [(''nrf'',
       \<lparr>override = ''replace'', startup = ''enabled'',
        command = ''nrf --nrfcfg /etc/nrf/nrfcfg.yaml'',
        environment =
          [(''GRPC_GO_LOG_VERBOSITY_LEVEL'', ''99''),
           (''GRPC_GO_LOG_SEVERITY_LEVEL'', ''info''),
           (''GRPC_TRACE'', ''all''),
           (''GRPC_VERBOSITY'', ''debug''),
           (''MANAGED_BY_CONFIG_POD'', ''true'')]\<rparr>)]"
  by (simp add: pebble_layer_def environment_variables_def BASE_CONFIG_PATH_def
      CONFIG_FILE_NAME_def)

lemma add_layer_one_replace:
  assumes "can_connect w" and "services l = [(n, s)]" and "override s = ''replace''"
  shows "container_add_layer label l True w =
           Inr (w\<lparr>layers := with_layer label l (layers w),
                  calls := calls w @ [AddLayer label l True]\<rparr>)"
  using assms by (simp add: container_add_layer_def with_layer_def split: option.splits)

lemma with_layer_lookup:
  assumes "services l = [(n, s)]"
  shows "\<exists>l'. map_of (with_layer label l ls) label = Some l' \<and> map_of (services l') n = Some s"
  using assms
  by (cases "map_of ls label") (simp_all add: with_layer_def map_of_upsert_same map_add_def)

lemma with_layer_twice:
  assumes "services l = [(n, s)]"
  shows "with_layer label l (with_layer label l ls) = with_layer label l ls"
proof -
  obtain l' where l': "map_of (with_layer label l ls) label = Some l'"
    "map_of (services l') n = Some s"
    using with_layer_lookup [OF assms] by blast
  have "with_layer label l (with_layer label l ls) =
          upsert label (l'\<lparr>services := upsert n s (services l')\<rparr>) (with_layer label l ls)"
    using l'(1) assms by (simp add: with_layer_def [of label l "with_layer label l ls"])
  also have "\<dots> = upsert label l' (with_layer label l ls)"
    using l'(2) by (simp add: upsert_present)
  also have "\<dots> = with_layer label l ls"
    using l'(1) by (rule upsert_present)
  finally show ?thesis .
qed

lemma with_layer_first: "with_layer label l [] = [(label, l)]"
  by (simp add: with_layer_def)

subsection \<open>Replanning\<close>

lemma autostart_lookup:
  "autostart plan st n =
     (if \<exists>s. (n, s) \<in> set plan \<and> startup s = ''enabled'' then Some ACTIVE else st n)"
  unfolding autostart_def
  by (induction plan arbitrary: st) (auto split: if_splits)

lemma autostart_twice: "autostart plan (autostart plan st) = autostart plan st"
  by (rule ext) (auto simp add: autostart_lookup)

subsection \<open>The convergence routine on its last path\<close>

lemma pebble_ready_active:
  assumes "relations w ''database'' \<noteq> None" and "can_connect w"
    and "files w ''/etc/nrf/nrfcfg.yaml'' \<noteq> None"
  shows "on_nrf_pebble_ready ev w =
     Inr (w\<lparr>layers := with_layer ''nrf'' pebble_layer (layers w),
            service_status :=
              autostart (get_plan (with_layer ''nrf'' pebble_layer (layers w))) (service_status w),
            status := ActiveStatus,
            relation_data := (relation_data w)
              (''nrf'' := (relation_data w ''nrf'')
                 (''url'' \<mapsto>
                    ''http://'' @ app_name w @ ''.'' @ model_name w @ ''.svc.cluster.local:29510'')),
            calls := calls w @
              [AddLayer ''nrf'' pebble_layer True, Replan, SetStatus ActiveStatus,
               SetInfo ''nrf''
                 (''http://'' @ app_name w @ ''.'' @ model_name w @ ''.svc.cluster.local:29510'')]\<rparr>)"
proof -
  have add: "container_add_layer ''nrf'' pebble_layer True w =
           Inr (w\<lparr>layers := with_layer ''nrf'' pebble_layer (layers w),
                  calls := calls w @ [AddLayer ''nrf'' pebble_layer True]\<rparr>)"
    using assms(2) services_pebble_layer by (rule add_layer_one_replace) simp
  show ?thesis
    using assms
    by (auto simp add: handler_defs add container_replan_def
        update_nrf_relation_def set_info_def nrf_url_def)
qed

text \<open>
  C1: when the database relation is present, the container is reachable and the config
  file exists, the convergence routine adds the layer \<open>nrf\<close> (combined), replans, sets the
  unit status to Active and publishes the endpoint, in this order and with no other call.
  The layer has exactly one service entry, named \<open>nrf\<close>, with override \<open>replace\<close>, startup
  \<open>enabled\<close>, the command \<open>nrf --nrfcfg /etc/nrf/nrfcfg.yaml\<close> and the five environment
  variables; afterwards the layer \<open>nrf\<close> of the container holds that entry, and when the
  container had no layer before, the plan is that entry alone. The payload of the \<open>nrf\<close>
  relation has the URL of the service under \<open>url\<close>.
\<close>

theorem pebble_ready_converges:
  assumes "relations w ''database'' \<noteq> None" and "can_connect w"
    and "files w ''/etc/nrf/nrfcfg.yaml'' \<noteq> None"
  shows "\<exists>w' l svc. on_nrf_pebble_ready ev w = Inr w' \<and>
           calls w' = calls w @
             [AddLayer ''nrf'' pebble_layer True, Replan, SetStatus ActiveStatus,
              SetInfo ''nrf''
                (''http://'' @ app_name w @ ''.'' @ model_name w @ ''.svc.cluster.local:29510'')] \<and>
           svc = \<lparr>override = ''replace'', startup = ''enabled'',
                  command = ''nrf --nrfcfg /etc/nrf/nrfcfg.yaml'',
                  environment =
                    [(''GRPC_GO_LOG_VERBOSITY_LEVEL'', ''99''),
                     (''GRPC_GO_LOG_SEVERITY_LEVEL'', ''info''),
                     (''GRPC_TRACE'', ''all''),
                     (''GRPC_VERBOSITY'', ''debug''),
                     (''MANAGED_BY_CONFIG_POD'', ''true'')]\<rparr> \<and>
           services pebble_layer = [(''nrf'', svc)] \<and>
           map_of (layers w') ''nrf'' = Some l \<and> map_of (services l) ''nrf'' = Some svc \<and>
           (layers w = [] \<longrightarrow> get_plan (layers w') = [(''nrf'', svc)]) \<and>
           status w' = ActiveStatus \<and>
           relation_data w' ''nrf'' ''url'' =
             Some (''http://'' @ app_name w @ ''.'' @ model_name w @ ''.svc.cluster.local:29510'') \<and>
           files w' = files w \<and> deferred w' = deferred w"
proof -
  let ?svc = "\<lparr>override = ''replace'', startup = ''enabled'',
                  command = ''nrf --nrfcfg /etc/nrf/nrfcfg.yaml'',
                  environment =
                    [(''GRPC_GO_LOG_VERBOSITY_LEVEL'', ''99''),
                     (''GRPC_GO_LOG_SEVERITY_LEVEL'', ''info''),
                     (''GRPC_TRACE'', ''all''),
                     (''GRPC_VERBOSITY'', ''debug''),
                     (''MANAGED_BY_CONFIG_POD'', ''true'')]\<rparr>"
  obtain l where l: "map_of (with_layer ''nrf'' pebble_layer (layers w)) ''nrf'' = Some l"
    "map_of (services l) ''nrf'' = Some ?svc"
    using with_layer_lookup [OF services_pebble_layer] by blast
  have plan: "layers w = [] \<longrightarrow>
      get_plan (with_layer ''nrf'' pebble_layer (layers w)) = [(''nrf'', ?svc)]"
    by (simp add: with_layer_first get_plan_def services_pebble_layer)
  show ?thesis
    unfolding pebble_ready_active [OF assms]
    using l plan services_pebble_layer by simp
qed

theorem pebble_ready_converges_witness:
  "relations configured_unit ''database'' \<noteq> None \<and> can_connect configured_unit \<and>
   files configured_unit ''/etc/nrf/nrfcfg.yaml'' \<noteq> None \<and>
   (\<exists>w'. on_nrf_pebble_ready PebbleReadyEvent configured_unit = Inr w' \<and>
      calls w' =
        [AddLayer ''nrf'' pebble_layer True, Replan, SetStatus ActiveStatus,
         SetInfo ''nrf'' ''http://nrf.core.svc.cluster.local:29510''] \<and>
      get_plan (layers w') =
        [(''nrf'',
          \<lparr>override = ''replace'', startup = ''enabled'',
           command = ''nrf --nrfcfg /etc/nrf/nrfcfg.yaml'',
           environment =
             [(''GRPC_GO_LOG_VERBOSITY_LEVEL'', ''99''),
              (''GRPC_GO_LOG_SEVERITY_LEVEL'', ''info''),
              (''GRPC_TRACE'', ''all''),
              (''GRPC_VERBOSITY'', ''debug''),
              (''MANAGED_BY_CONFIG_POD'', ''true'')]\<rparr>)] \<and>
      status w' = ActiveStatus \<and>
      relation_data w' ''nrf'' ''url'' = Some ''http://nrf.core.svc.cluster.local:29510'')"
  using pebble_ready_converges [of configured_unit PebbleReadyEvent]
  by (auto simp add: configured_unit_def reachable_unit_def related_unit_def fresh_unit_def)


subsection \<open>Idempotence\<close>

text \<open>
  C6: the convergence routine run twice in succession on the same inputs succeeds both
  times, and the second run leaves the layers, hence the plan, and the relation data as
  the first run left them; the status, the files and the service states are the same as
  well. (The list of calls and the deferred events record both runs.)
\<close>

theorem convergence_idempotent:
  "\<exists>w1 w2. on_nrf_pebble_ready ev w = Inr w1 \<and> on_nrf_pebble_ready ev w1 = Inr w2 \<and>
      layers w2 = layers w1 \<and> get_plan (layers w2) = get_plan (layers w1) \<and>
      relation_data w2 = relation_data w1 \<and> status w2 = status w1 \<and>
      files w2 = files w1 \<and> service_status w2 = service_status w1"
proof -
  consider (blocked) "relations w ''database'' = None"
    | (unreachable) "relations w ''database'' \<noteq> None" "\<not> can_connect w"
    | (unwritten) "relations w ''database'' \<noteq> None" "can_connect w"
        "files w ''/etc/nrf/nrfcfg.yaml'' = None"
    | (active) "relations w ''database'' \<noteq> None" "can_connect w"
        "files w ''/etc/nrf/nrfcfg.yaml'' \<noteq> None"
    by blast
  then show ?thesis
  proof cases
    case blocked
    then show ?thesis by (simp add: handler_defs)
  next
    case unreachable
    then show ?thesis by (auto simp add: handler_defs)
  next
    case unwritten
    then show ?thesis by (auto simp add: handler_defs)
  next
    case active
    let ?w1 = "w\<lparr>layers := with_layer ''nrf'' pebble_layer (layers w),
            service_status :=
              autostart (get_plan (with_layer ''nrf'' pebble_layer (layers w))) (service_status w),
            status := ActiveStatus,
            relation_data := (relation_data w)
              (''nrf'' := (relation_data w ''nrf'')
                 (''url'' \<mapsto>
                    ''http://'' @ app_name w @ ''.'' @ model_name w @ ''.svc.cluster.local:29510'')),
            calls := calls w @
              [AddLayer ''nrf'' pebble_layer True, Replan, SetStatus ActiveStatus,
               SetInfo ''nrf''
                 (''http://'' @ app_name w @ ''.'' @ model_name w @ ''.svc.cluster.local:29510'')]\<rparr>"
    have first: "on_nrf_pebble_ready ev w = Inr ?w1"
      using active by (rule pebble_ready_active)
    have again: "relations ?w1 ''database'' \<noteq> None" "can_connect ?w1"
      "files ?w1 ''/etc/nrf/nrfcfg.yaml'' \<noteq> None"
      using active by simp_all
    note second = pebble_ready_active [OF again, of ev]
    show ?thesis
      using first second
      by (simp add: with_layer_twice [OF services_pebble_layer] autostart_twice)
  qed
qed

theorem convergence_idempotent_witness:
  "\<exists>w1 w2. on_nrf_pebble_ready PebbleReadyEvent configured_unit = Inr w1 \<and>
      on_nrf_pebble_ready PebbleReadyEvent w1 = Inr w2 \<and>
      get_plan (layers w1) = services pebble_layer \<and>
      get_plan (layers w2) = services pebble_layer \<and>
      relation_data w1 ''nrf'' = [''url'' \<mapsto> ''http://nrf.core.svc.cluster.local:29510''] \<and>
      relation_data w2 ''nrf'' = [''url'' \<mapsto> ''http://nrf.core.svc.cluster.local:29510'']"
proof -
  obtain w1 w2 where run: "on_nrf_pebble_ready PebbleReadyEvent configured_unit = Inr w1"
    "on_nrf_pebble_ready PebbleReadyEvent w1 = Inr w2"
    "get_plan (layers w2) = get_plan (layers w1)" "relation_data w2 = relation_data w1"
    using convergence_idempotent [of PebbleReadyEvent configured_unit] by blast
  have "relations configured_unit ''database'' \<noteq> None" "can_connect configured_unit"
    "files configured_unit ''/etc/nrf/nrfcfg.yaml'' \<noteq> None"
    by (simp_all add: configured_unit_def reachable_unit_def related_unit_def fresh_unit_def)
  from run(1) [unfolded pebble_ready_active [OF this]]
  have "get_plan (layers w1) = services pebble_layer"
    "relation_data w1 ''nrf'' = [''url'' \<mapsto> ''http://nrf.core.svc.cluster.local:29510'']"
    by (auto simp add: configured_unit_def reachable_unit_def related_unit_def fresh_unit_def
        with_layer_first get_plan_def services_pebble_layer)
  with run show ?thesis by auto
qed

subsection \<open>The service query and the relation-joined handler\<close>

lemma service_is_running_eq:
  "nrf_service_is_running w =
     Inr (can_connect w \<and> map_of (get_plan (layers w)) ''nrf'' \<noteq> None \<and>
          service_status w ''nrf'' = Some ACTIVE)"
  by (auto simp add: nrf_service_is_running_def container_get_service_def service_name_def
      is_running_def split: option.splits)

lemma relation_joined_eq:
  "on_nrf_relation_joined ev w =
     (if can_connect w \<and> map_of (get_plan (layers w)) ''nrf'' \<noteq> None \<and>
         service_status w ''nrf'' = Some ACTIVE
      then Inr (w\<lparr>relation_data := (relation_data w)
                    (''nrf'' := (relation_data w ''nrf'')
                       (''url'' \<mapsto> ''http://'' @ app_name w @ ''.'' @ model_name w @
                                  ''.svc.cluster.local:29510'')),
                  calls := calls w @
                    [SetInfo ''nrf'' (''http://'' @ app_name w @ ''.'' @ model_name w @
                                       ''.svc.cluster.local:29510'')]\<rparr>)
      else Inr w)"
  by (simp add: on_nrf_relation_joined_def service_is_running_eq update_nrf_relation_def
      set_info_def nrf_url_def)

text \<open>
  C9: the query whether the service runs always returns a truth value, never an error.
  It is true exactly when the container is reachable, the plan declares the service
  \<open>nrf\<close> and Pebble reports it active. When the container is not reachable, where
  \<open>get_service\<close> would raise a connection error, and when the service is not declared, where
  \<open>get_service\<close> raises a model error, the answer is false.
\<close>

theorem service_query_never_raises:
  "nrf_service_is_running w =
     Inr (can_connect w \<and> map_of (get_plan (layers w)) ''nrf'' \<noteq> None \<and>
          service_status w ''nrf'' = Some ACTIVE) \<and>
   (\<not> can_connect w \<longrightarrow>
      container_get_service service_name w = Inl ConnectionError \<and>
      nrf_service_is_running w = Inr False) \<and>
   (can_connect w \<and> map_of (get_plan (layers w)) ''nrf'' = None \<longrightarrow>
      container_get_service service_name w = Inl ModelError \<and>
      nrf_service_is_running w = Inr False)"
  by (auto simp add: nrf_service_is_running_def container_get_service_def service_name_def
      is_running_def split: option.splits)

theorem service_query_never_raises_witness:
  "\<not> can_connect fresh_unit \<and>
   container_get_service service_name fresh_unit = Inl ConnectionError \<and>
   nrf_service_is_running fresh_unit = Inr False \<and>
   can_connect reachable_unit \<and> map_of (get_plan (layers reachable_unit)) ''nrf'' = None \<and>
   container_get_service service_name reachable_unit = Inl ModelError \<and>
   nrf_service_is_running reachable_unit = Inr False \<and>
   nrf_service_is_running running_unit = Inr True"
proof -
  have a: "\<not> can_connect fresh_unit"
    by (simp add: fresh_unit_def)
  have b: "can_connect reachable_unit \<and> map_of (get_plan (layers reachable_unit)) ''nrf'' = None"
    by (simp add: reachable_unit_def related_unit_def fresh_unit_def get_plan_def)
  have c: "can_connect running_unit \<and> map_of (get_plan (layers running_unit)) ''nrf'' \<noteq> None \<and>
       service_status running_unit ''nrf'' = Some ACTIVE"
    by (simp add: running_unit_def configured_unit_def reachable_unit_def related_unit_def
        fresh_unit_def get_plan_def services_pebble_layer)
  show ?thesis
    using a b c service_query_never_raises [of fresh_unit]
      service_query_never_raises [of reachable_unit] service_query_never_raises [of running_unit]
    by simp
qed

text \<open>
  C7: the handler of the joined \<open>nrf\<close> relation returns the state unchanged, so publishes
  nothing and leaves the payload as it is, unless the service is confirmed running, in
  particular whenever the container is not reachable; when the service is confirmed
  running (reachable, declared and active), its only effect is to put the URL
  \<open>http://<app>.<model>.svc.cluster.local:29510\<close> under \<open>url\<close> in the payload of the
  \<open>nrf\<close> relation.
\<close>

theorem relation_joined_publishes_when_running:
  "(\<not> can_connect w \<longrightarrow> on_nrf_relation_joined ev w = Inr w) \<and>
   on_nrf_relation_joined ev w =
     (if can_connect w \<and> map_of (get_plan (layers w)) ''nrf'' \<noteq> None \<and>
         service_status w ''nrf'' = Some ACTIVE
      then Inr (w\<lparr>relation_data := (relation_data w)
                    (''nrf'' := (relation_data w ''nrf'')
                       (''url'' \<mapsto> ''http://'' @ app_name w @ ''.'' @ model_name w @
                                  ''.svc.cluster.local:29510'')),
                  calls := calls w @
                    [SetInfo ''nrf'' (''http://'' @ app_name w @ ''.'' @ model_name w @
                                       ''.svc.cluster.local:29510'')]\<rparr>)
      else Inr w)"
  by (simp add: on_nrf_relation_joined_def service_is_running_eq update_nrf_relation_def
      set_info_def nrf_url_def)

theorem relation_joined_publishes_when_running_witness:
  "\<not> can_connect fresh_unit \<and> relation_data fresh_unit ''nrf'' = Map.empty \<and>
   on_nrf_relation_joined (RelationJoinedEvent ''nrf'') fresh_unit = Inr fresh_unit \<and>
   on_nrf_relation_joined (RelationJoinedEvent ''nrf'') running_unit =
     Inr (running_unit\<lparr>relation_data := (\<lambda>r. Map.empty)
            (''nrf'' := [''url'' \<mapsto> ''http://nrf.core.svc.cluster.local:29510'']),
          calls := [SetInfo ''nrf'' ''http://nrf.core.svc.cluster.local:29510'']\<rparr>)"
proof -
  have a: "\<not> can_connect fresh_unit" "relation_data fresh_unit ''nrf'' = Map.empty"
    by (simp_all add: fresh_unit_def)
  have c: "can_connect running_unit \<and> map_of (get_plan (layers running_unit)) ''nrf'' \<noteq> None \<and>
       service_status running_unit ''nrf'' = Some ACTIVE"
    by (simp add: running_unit_def configured_unit_def reachable_unit_def related_unit_def
        fresh_unit_def get_plan_def services_pebble_layer)
  have d: "app_name running_unit = ''nrf''" "model_name running_unit = ''core''"
    "relation_data running_unit = (\<lambda>r. Map.empty)" "calls running_unit = []"
    by (simp_all add: running_unit_def configured_unit_def reachable_unit_def related_unit_def
        fresh_unit_def)
  show ?thesis
    using a c d relation_joined_publishes_when_running [of fresh_unit "RelationJoinedEvent ''nrf''"]
      relation_joined_publishes_when_running [of running_unit "RelationJoinedEvent ''nrf''"]
    by simp
qed


subsection \<open>The database-created handler\<close>

lemma split_first: "\<exists>rest. split sep s = takeWhile (\<lambda>c. c \<noteq> sep) s # rest"
  by (induction s) auto

lemma index0_split: "index0 (split sep s) = Inr (takeWhile (\<lambda>c. c \<noteq> sep) s)"
  using split_first [of sep s] by (auto simp add: index0_def)

lemma database_created_reachable:
  assumes "can_connect w"
  shows "on_database_created (DatabaseCreatedEvent (Some uris)) w =
      on_nrf_pebble_ready (DatabaseCreatedEvent (Some uris))
        (w\<lparr>files := (files w)(''/etc/nrf/nrfcfg.yaml'' \<mapsto>
               render (nrfcfg_yaml_j2 w)
                 [(''database_name'', ''free5gc''),
                  (''database_url'', takeWhile (\<lambda>c. c \<noteq> CHR '','') uris)]),
           calls := calls w @
             [Push ''/etc/nrf/nrfcfg.yaml''
                (render (nrfcfg_yaml_j2 w)
                   [(''database_name'', ''free5gc''),
                    (''database_url'', takeWhile (\<lambda>c. c \<noteq> CHR '','') uris)])]\<rparr>)"
  using assms
  by (simp add: on_database_created_def event_uris_def index0_split write_config_file_def
      container_push_def BASE_CONFIG_PATH_def CONFIG_FILE_NAME_def DATABASE_NAME_def Let_def)

lemma database_created_unreachable:
  assumes "\<not> can_connect w"
  shows "on_database_created ev w =
      Inr (w\<lparr>status := WaitingStatus ''Waiting for container to be ready'',
             deferred := deferred w @ [ev],
             calls := calls w @
               [SetStatus (WaitingStatus ''Waiting for container to be ready''), Defer ev]\<rparr>)"
  using assms by (simp add: on_database_created_def set_status_def event_defer_def)

text \<open>
  C4: for a database-created event carrying a URI list: when the container is not
  reachable the handler sets the status to Waiting, defers the event and changes nothing
  else, so writes no file; when it is reachable, the handler pushes to
  \<open>/etc/nrf/nrfcfg.yaml\<close> the template rendered with the database name \<open>free5gc\<close> and with
  the part of the list before its first comma as database URL, and then runs the
  convergence routine on the resulting state.
\<close>

theorem database_created_writes_config:
  "(\<not> can_connect w \<longrightarrow>
      on_database_created (DatabaseCreatedEvent (Some uris)) w =
        Inr (w\<lparr>status := WaitingStatus ''Waiting for container to be ready'',
               deferred := deferred w @ [DatabaseCreatedEvent (Some uris)],
               calls := calls w @
                 [SetStatus (WaitingStatus ''Waiting for container to be ready''),
                  Defer (DatabaseCreatedEvent (Some uris))]\<rparr>)) \<and>
   (can_connect w \<longrightarrow>
      on_database_created (DatabaseCreatedEvent (Some uris)) w =
        on_nrf_pebble_ready (DatabaseCreatedEvent (Some uris))
          (w\<lparr>files := (files w)(''/etc/nrf/nrfcfg.yaml'' \<mapsto>
                 render (nrfcfg_yaml_j2 w)
                   [(''database_name'', ''free5gc''),
                    (''database_url'', takeWhile (\<lambda>c. c \<noteq> CHR '','') uris)]),
             calls := calls w @
               [Push ''/etc/nrf/nrfcfg.yaml''
                  (render (nrfcfg_yaml_j2 w)
                     [(''database_name'', ''free5gc''),
                      (''database_url'', takeWhile (\<lambda>c. c \<noteq> CHR '','') uris)])]\<rparr>))"
  using database_created_reachable [of w uris]
    database_created_unreachable [of w "DatabaseCreatedEvent (Some uris)"]
  by blast

theorem database_created_writes_config_witness:
  "\<not> can_connect related_unit \<and>
   on_database_created (DatabaseCreatedEvent (Some ''1.2.3.4:1234,5.6.7.8:1111'')) related_unit =
     Inr (related_unit\<lparr>status := WaitingStatus ''Waiting for container to be ready'',
            deferred := [DatabaseCreatedEvent (Some ''1.2.3.4:1234,5.6.7.8:1111'')],
            calls := [SetStatus (WaitingStatus ''Waiting for container to be ready''),
                      Defer (DatabaseCreatedEvent (Some ''1.2.3.4:1234,5.6.7.8:1111''))]\<rparr>) \<and>
   can_connect reachable_unit \<and>
   (\<exists>w'. on_database_created (DatabaseCreatedEvent (Some ''1.2.3.4:1234,5.6.7.8:1111''))
            reachable_unit = Inr w' \<and>
      files w' ''/etc/nrf/nrfcfg.yaml'' =
        Some ''MongoDBName: free5gc MongoDBUrl: 1.2.3.4:1234 mongoDBStreamEnable: true'' \<and>
      status w' = ActiveStatus \<and>
      calls w' =
        [Push ''/etc/nrf/nrfcfg.yaml''
           ''MongoDBName: free5gc MongoDBUrl: 1.2.3.4:1234 mongoDBStreamEnable: true'',
         AddLayer ''nrf'' pebble_layer True, Replan, SetStatus ActiveStatus,
         SetInfo ''nrf'' ''http://nrf.core.svc.cluster.local:29510''])"
proof -
  let ?ev = "DatabaseCreatedEvent (Some ''1.2.3.4:1234,5.6.7.8:1111'')"
  let ?w1 = "reachable_unit\<lparr>files := [''/etc/nrf/nrfcfg.yaml'' \<mapsto>
      ''MongoDBName: free5gc MongoDBUrl: 1.2.3.4:1234 mongoDBStreamEnable: true''],
     calls := [Push ''/etc/nrf/nrfcfg.yaml''
        ''MongoDBName: free5gc MongoDBUrl: 1.2.3.4:1234 mongoDBStreamEnable: true'']\<rparr>"
  have off: "\<not> can_connect related_unit" and on: "can_connect reachable_unit"
    by (simp_all add: reachable_unit_def related_unit_def fresh_unit_def)
  have ready: "relations ?w1 ''database'' \<noteq> None" "can_connect ?w1"
    "files ?w1 ''/etc/nrf/nrfcfg.yaml'' \<noteq> None"
    by (simp_all add: reachable_unit_def related_unit_def fresh_unit_def)
  have "on_database_created ?ev reachable_unit = on_nrf_pebble_ready ?ev ?w1"
    using database_created_writes_config [of reachable_unit "''1.2.3.4:1234,5.6.7.8:1111''"] on
    by (simp add: reachable_unit_def related_unit_def fresh_unit_def render_def)
  then have conv: "\<exists>w'. on_database_created ?ev reachable_unit = Inr w' \<and>
      files w' ''/etc/nrf/nrfcfg.yaml'' =
        Some ''MongoDBName: free5gc MongoDBUrl: 1.2.3.4:1234 mongoDBStreamEnable: true'' \<and>
      status w' = ActiveStatus \<and>
      calls w' =
        [Push ''/etc/nrf/nrfcfg.yaml''
           ''MongoDBName: free5gc MongoDBUrl: 1.2.3.4:1234 mongoDBStreamEnable: true'',
         AddLayer ''nrf'' pebble_layer True, Replan, SetStatus ActiveStatus,
         SetInfo ''nrf'' ''http://nrf.core.svc.cluster.local:29510'']"
    unfolding pebble_ready_active [OF ready]
    by (simp add: reachable_unit_def related_unit_def fresh_unit_def)
  have wait: "on_database_created ?ev related_unit =
     Inr (related_unit\<lparr>status := WaitingStatus ''Waiting for container to be ready'',
            deferred := [?ev],
            calls := [SetStatus (WaitingStatus ''Waiting for container to be ready''),
                      Defer ?ev]\<rparr>)"
    using database_created_writes_config [of related_unit "''1.2.3.4:1234,5.6.7.8:1111''"] off
    by (simp add: related_unit_def fresh_unit_def)
  show ?thesis using off on wait conv by blast
qed

subsection \<open>What a handler adds to the calls\<close>

lemma pebble_ready_cases:
  "\<exists>w' new. on_nrf_pebble_ready ev w = Inr w' \<and> calls w' = calls w @ new \<and>
     files w' = files w \<and> status_writes new = [status w'] \<and>
     status w' \<in> {BlockedStatus ''Waiting for database relation to be created'',
                  WaitingStatus ''Waiting for container to be ready'',
                  WaitingStatus ''Waiting for config file to be written'',
                  ActiveStatus} \<and>
     config_before_plan (files w ''/etc/nrf/nrfcfg.yaml'' \<noteq> None) new \<and>
     ((\<exists>label l c. AddLayer label l c \<in> set new) \<longrightarrow> files w ''/etc/nrf/nrfcfg.yaml'' \<noteq> None)"
proof -
  consider (blocked) "relations w ''database'' = None"
    | (unreachable) "relations w ''database'' \<noteq> None" "\<not> can_connect w"
    | (unwritten) "relations w ''database'' \<noteq> None" "can_connect w"
        "files w ''/etc/nrf/nrfcfg.yaml'' = None"
    | (active) "relations w ''database'' \<noteq> None" "can_connect w"
        "files w ''/etc/nrf/nrfcfg.yaml'' \<noteq> None"
    by blast
  then show ?thesis
  proof cases
    case blocked
    then show ?thesis by (simp add: handler_defs)
  next
    case unreachable
    then show ?thesis by (auto simp add: handler_defs)
  next
    case unwritten
    then show ?thesis by (auto simp add: handler_defs)
  next
    case active
    show ?thesis
      unfolding pebble_ready_active [OF active]
      using active(3) by auto
  qed
qed

lemma database_created_cases:
  assumes "on_database_created ev w = Inr w'"
  shows "\<exists>new. calls w' = calls w @ new \<and> status_writes new = [status w'] \<and>
     status w' \<in> {BlockedStatus ''Waiting for database relation to be created'',
                  WaitingStatus ''Waiting for container to be ready'',
                  WaitingStatus ''Waiting for config file to be written'',
                  ActiveStatus} \<and>
     config_before_plan (files w ''/etc/nrf/nrfcfg.yaml'' \<noteq> None) new \<and>
     (files w' ''/etc/nrf/nrfcfg.yaml'' \<noteq> None \<longrightarrow>
        files w ''/etc/nrf/nrfcfg.yaml'' \<noteq> None \<or>
        (\<exists>source. Push ''/etc/nrf/nrfcfg.yaml'' source \<in> set new)) \<and>
     ((\<exists>label l c. AddLayer label l c \<in> set new) \<longrightarrow> files w' ''/etc/nrf/nrfcfg.yaml'' \<noteq> None)"
proof (cases "can_connect w")
  case False
  then show ?thesis
    using assms by (auto simp add: database_created_unreachable)
next
  case True
  then obtain uris where ev: "ev = DatabaseCreatedEvent (Some uris)"
    using assms
    by (auto simp add: on_database_created_def event_uris_def
        split: event.splits option.splits)
  let ?content = "render (nrfcfg_yaml_j2 w)
                 [(''database_name'', ''free5gc''),
                  (''database_url'', takeWhile (\<lambda>c. c \<noteq> CHR '','') uris)]"
  let ?w1 = "w\<lparr>files := (files w)(''/etc/nrf/nrfcfg.yaml'' \<mapsto> ?content),
           calls := calls w @ [Push ''/etc/nrf/nrfcfg.yaml'' ?content]\<rparr>"
  have run: "on_nrf_pebble_ready ev ?w1 = Inr w'"
    using assms database_created_reachable [OF True, of uris] ev by simp
  obtain new where new: "calls w' = calls ?w1 @ new" "files w' = files ?w1"
    "status_writes new = [status w']"
    "status w' \<in> {BlockedStatus ''Waiting for database relation to be created'',
                  WaitingStatus ''Waiting for container to be ready'',
                  WaitingStatus ''Waiting for config file to be written'',
                  ActiveStatus}"
    "config_before_plan (files ?w1 ''/etc/nrf/nrfcfg.yaml'' \<noteq> None) new"
    using pebble_ready_cases [of ev ?w1] run by auto
  show ?thesis
    using new
    by (intro exI [of _ "Push ''/etc/nrf/nrfcfg.yaml'' ?content # new"]) auto
qed

lemma relation_joined_cases:
  assumes "on_nrf_relation_joined ev w = Inr w'"
  shows "\<exists>new. calls w' = calls w @ new \<and> status_writes new = [] \<and> status w' = status w \<and>
     files w' = files w \<and> config_before_plan b new \<and>
     \<not> (\<exists>label l c. AddLayer label l c \<in> set new)"
proof (cases "can_connect w \<and> map_of (get_plan (layers w)) ''nrf'' \<noteq> None \<and>
         service_status w ''nrf'' = Some ACTIVE")
  case True
  then show ?thesis
    using assms unfolding relation_joined_eq by auto
next
  case False
  then have "w' = w"
    using assms unfolding relation_joined_eq by auto
  then show ?thesis by simp
qed

text \<open>
  C10: a run to completion of any of the three handlers appends calls among which there
  is at most one status write; a status written is one of
  \<open>Blocked(Waiting for database relation to be created)\<close>,
  \<open>Waiting(Waiting for container to be ready)\<close>,
  \<open>Waiting(Waiting for config file to be written)\<close> and \<open>Active\<close>, and the unit status
  afterwards is the one written, or the previous one when none was. The handler of the
  joined \<open>nrf\<close> relation writes no status and leaves the unit status as it was.
\<close>

theorem status_written_at_most_once:
  "(on_nrf_pebble_ready ev w = Inr w' \<or> on_database_created ev w = Inr w' \<or>
    on_nrf_relation_joined ev w = Inr w' \<longrightarrow>
      (\<exists>new. calls w' = calls w @ new \<and> length (status_writes new) \<le> 1 \<and>
         set (status_writes new) \<subseteq>
           {BlockedStatus ''Waiting for database relation to be created'',
            WaitingStatus ''Waiting for container to be ready'',
            WaitingStatus ''Waiting for config file to be written'',
            ActiveStatus} \<and>
         status w' = last (status w # status_writes new))) \<and>
   (on_nrf_relation_joined ev w = Inr w' \<longrightarrow>
      (\<exists>new. calls w' = calls w @ new \<and> status_writes new = [] \<and> status w' = status w))"
proof -
  have "\<exists>new. calls w' = calls w @ new \<and> length (status_writes new) \<le> 1 \<and>
         set (status_writes new) \<subseteq>
           {BlockedStatus ''Waiting for database relation to be created'',
            WaitingStatus ''Waiting for container to be ready'',
            WaitingStatus ''Waiting for config file to be written'',
            ActiveStatus} \<and>
         status w' = last (status w # status_writes new)"
    if "on_nrf_pebble_ready ev w = Inr w'"
    using pebble_ready_cases [of ev w] that by auto
  moreover have "\<exists>new. calls w' = calls w @ new \<and> length (status_writes new) \<le> 1 \<and>
         set (status_writes new) \<subseteq>
           {BlockedStatus ''Waiting for database relation to be created'',
            WaitingStatus ''Waiting for container to be ready'',
            WaitingStatus ''Waiting for config file to be written'',
            ActiveStatus} \<and>
         status w' = last (status w # status_writes new)"
    if "on_database_created ev w = Inr w'"
    using database_created_cases [OF that] by auto
  moreover have "\<exists>new. calls w' = calls w @ new \<and> status_writes new = [] \<and> status w' = status w"
    if "on_nrf_relation_joined ev w = Inr w'"
    using relation_joined_cases [OF that, of True] by auto
  ultimately show ?thesis by fastforce
qed


theorem status_written_at_most_once_witness:
  "on_nrf_pebble_ready PebbleReadyEvent reachable_unit =
     Inr (reachable_unit\<lparr>status := WaitingStatus ''Waiting for config file to be written'',
            calls := [SetStatus (WaitingStatus ''Waiting for config file to be written'')]\<rparr>) \<and>
   (\<exists>new. [SetStatus (WaitingStatus ''Waiting for config file to be written'')] =
            calls reachable_unit @ new \<and>
      length (status_writes new) \<le> 1 \<and>
      set (status_writes new) \<subseteq>
        {BlockedStatus ''Waiting for database relation to be created'',
         WaitingStatus ''Waiting for container to be ready'',
         WaitingStatus ''Waiting for config file to be written'',
         ActiveStatus} \<and>
      WaitingStatus ''Waiting for config file to be written'' =
        last (status reachable_unit # status_writes new)) \<and>
   on_nrf_relation_joined (RelationJoinedEvent ''nrf'') fresh_unit = Inr fresh_unit \<and>
   (\<exists>new. calls fresh_unit = calls fresh_unit @ new \<and> status_writes new = [] \<and>
      status fresh_unit = status fresh_unit)"
proof -
  let ?w' = "reachable_unit\<lparr>status := WaitingStatus ''Waiting for config file to be written'',
            calls := [SetStatus (WaitingStatus ''Waiting for config file to be written'')]\<rparr>"
  have ready: "on_nrf_pebble_ready PebbleReadyEvent reachable_unit = Inr ?w'"
    by (simp add: handler_defs reachable_unit_def related_unit_def fresh_unit_def)
  have joined: "on_nrf_relation_joined (RelationJoinedEvent ''nrf'') fresh_unit = Inr fresh_unit"
    by (simp add: relation_joined_eq fresh_unit_def)
  show ?thesis
    using ready joined
      status_written_at_most_once [of PebbleReadyEvent reachable_unit ?w']
      status_written_at_most_once [of "RelationJoinedEvent ''nrf''" fresh_unit fresh_unit]
    by simp
qed

subsection \<open>The config file and the plan\<close>

lemma config_before_plan_True: "config_before_plan b cs \<Longrightarrow> config_before_plan True cs"
proof (induction cs arbitrary: b)
  case Nil
  then show ?case by simp
next
  case (Cons c cs)
  show ?case
  proof (cases c)
    case (Push path source)
    then have "config_before_plan (b \<or> path = ''/etc/nrf/nrfcfg.yaml'') cs"
      using Cons.prems by simp
    then have "config_before_plan True cs" by (rule Cons.IH)
    then show ?thesis using Push by simp
  next
    case (AddLayer label l combine)
    then have "config_before_plan b cs" using Cons.prems by auto
    then have "config_before_plan True cs" by (rule Cons.IH)
    then show ?thesis using AddLayer by simp
  next
    case (SetStatus st)
    then have "config_before_plan b cs" using Cons.prems by simp
    then have "config_before_plan True cs" by (rule Cons.IH)
    then show ?thesis using SetStatus by simp
  next
    case (Defer e)
    then have "config_before_plan b cs" using Cons.prems by simp
    then have "config_before_plan True cs" by (rule Cons.IH)
    then show ?thesis using Defer by simp
  next
    case Replan
    then have "config_before_plan b cs" using Cons.prems by simp
    then have "config_before_plan True cs" by (rule Cons.IH)
    then show ?thesis using Replan by simp
  next
    case (SetInfo r u)
    then have "config_before_plan b cs" using Cons.prems by simp
    then have "config_before_plan True cs" by (rule Cons.IH)
    then show ?thesis using SetInfo by simp
  qed
qed

lemma config_before_plan_mono:
  assumes "config_before_plan b cs" and "b \<longrightarrow> b'"
  shows "config_before_plan b' cs"
proof (cases b')
  case True
  then show ?thesis using config_before_plan_True [OF assms(1)] by simp
next
  case False
  then have "b = b'" using assms(2) by simp
  then show ?thesis using assms(1) by simp
qed

lemma config_before_plan_append:
  "config_before_plan b (xs @ ys) =
     (config_before_plan b xs \<and>
      config_before_plan (b \<or> (\<exists>source. Push ''/etc/nrf/nrfcfg.yaml'' source \<in> set xs)) ys)"
proof (induction xs arbitrary: b)
  case Nil
  then show ?case by simp
next
  case (Cons c xs)
  show ?case
  proof (cases c)
    case (Push path source)
    have flag: "((b \<or> path = ''/etc/nrf/nrfcfg.yaml'') \<or>
           (\<exists>source. Push ''/etc/nrf/nrfcfg.yaml'' source \<in> set xs)) =
         (b \<or> (\<exists>source. Push ''/etc/nrf/nrfcfg.yaml'' source \<in> set (c # xs)))"
      using Push by auto
    have "config_before_plan b ((c # xs) @ ys) =
        config_before_plan (b \<or> path = ''/etc/nrf/nrfcfg.yaml'') (xs @ ys)"
      using Push by simp
    also have "\<dots> = (config_before_plan (b \<or> path = ''/etc/nrf/nrfcfg.yaml'') xs \<and>
        config_before_plan ((b \<or> path = ''/etc/nrf/nrfcfg.yaml'') \<or>
           (\<exists>source. Push ''/etc/nrf/nrfcfg.yaml'' source \<in> set xs)) ys)"
      by (rule Cons.IH)
    also have "\<dots> = (config_before_plan b (c # xs) \<and>
        config_before_plan (b \<or>
           (\<exists>source. Push ''/etc/nrf/nrfcfg.yaml'' source \<in> set (c # xs))) ys)"
      unfolding flag using Push by simp
    finally show ?thesis .
  next
    case (AddLayer label l combine)
    then show ?thesis using Cons.IH [of b] by auto
  next
    case (SetStatus st)
    then show ?thesis using Cons.IH [of b] by simp
  next
    case (Defer e)
    then show ?thesis using Cons.IH [of b] by simp
  next
    case Replan
    then show ?thesis using Cons.IH [of b] by simp
  next
    case (SetInfo r u)
    then show ?thesis using Cons.IH [of b] by simp
  qed
qed

lemma emit_cases:
  assumes "emit ev w = Inr w'"
  shows "\<exists>new. calls w' = calls w @ new \<and>
     config_before_plan (files w ''/etc/nrf/nrfcfg.yaml'' \<noteq> None) new \<and>
     (files w' ''/etc/nrf/nrfcfg.yaml'' \<noteq> None \<longrightarrow>
        files w ''/etc/nrf/nrfcfg.yaml'' \<noteq> None \<or>
        (\<exists>source. Push ''/etc/nrf/nrfcfg.yaml'' source \<in> set new)) \<and>
     ((\<exists>label l c. AddLayer label l c \<in> set new) \<longrightarrow> files w' ''/etc/nrf/nrfcfg.yaml'' \<noteq> None)"
proof -
  have "on_nrf_pebble_ready ev w = Inr w' \<or> on_database_created ev w = Inr w' \<or>
      on_nrf_relation_joined ev w = Inr w' \<or> w' = w"
  proof (cases ev)
    case PebbleReadyEvent
    then show ?thesis using assms by (simp add: emit_def)
  next
    case (RelationJoinedEvent r)
    then show ?thesis using assms by (simp add: emit_def split: if_splits)
  next
    case (DatabaseCreatedEvent u)
    then show ?thesis using assms by (simp add: emit_def)
  qed
  then consider (ready) "on_nrf_pebble_ready ev w = Inr w'"
    | (created) "on_database_created ev w = Inr w'"
    | (joined) "on_nrf_relation_joined ev w = Inr w'"
    | (ignored) "w' = w"
    by blast
  then show ?thesis
  proof cases
    case ready
    then show ?thesis using pebble_ready_cases [of ev w] by auto
  next
    case created
    then show ?thesis using database_created_cases [of ev w w'] by auto
  next
    case joined
    then show ?thesis
      using relation_joined_cases [of ev w w' "files w ''/etc/nrf/nrfcfg.yaml'' \<noteq> None"]
      by auto
  next
    case ignored
    then show ?thesis by simp
  qed
qed

lemma reachable_invariant:
  assumes "reachable w"
  shows "config_before_plan False (calls w) \<and>
     (files w ''/etc/nrf/nrfcfg.yaml'' \<noteq> None \<longrightarrow>
        (\<exists>source. Push ''/etc/nrf/nrfcfg.yaml'' source \<in> set (calls w)))"
  using assms
proof (induction rule: reachable.induct)
  case (start w)
  then show ?case by simp
next
  case (handle w ev w')
  obtain new where new: "calls w' = calls w @ new"
    "config_before_plan (files w ''/etc/nrf/nrfcfg.yaml'' \<noteq> None) new"
    "files w' ''/etc/nrf/nrfcfg.yaml'' \<noteq> None \<longrightarrow>
        files w ''/etc/nrf/nrfcfg.yaml'' \<noteq> None \<or>
        (\<exists>source. Push ''/etc/nrf/nrfcfg.yaml'' source \<in> set new)"
    using emit_cases [OF handle.hyps(2)] by blast
  have "config_before_plan
      (False \<or> (\<exists>source. Push ''/etc/nrf/nrfcfg.yaml'' source \<in> set (calls w))) new"
    using new(2) by (rule config_before_plan_mono) (use handle.IH in blast)
  then have "config_before_plan False (calls w')"
    using handle.IH new(1) by (simp add: config_before_plan_append)
  moreover have "files w' ''/etc/nrf/nrfcfg.yaml'' \<noteq> None \<longrightarrow>
        (\<exists>source. Push ''/etc/nrf/nrfcfg.yaml'' source \<in> set (calls w'))"
    using new(1,3) handle.IH by auto
  ultimately show ?case by blast
next
  case (environment w w')
  then show ?case by auto
qed

text \<open>
  C5: in every state that an execution reaches, each layer was added after a push of the
  config file; and every handler run from such a state that adds the layer ends with the
  config file in the container, the file having been there when the handler started or
  pushed by the handler before it added the layer. No handler changes the files after
  adding the layer, so the file is there when the plan is applied.
\<close>

theorem config_written_before_plan:
  assumes "reachable w"
  shows "config_before_plan False (calls w) \<and>
     (\<forall>ev w'. emit ev w = Inr w' \<longrightarrow>
        (\<exists>new. calls w' = calls w @ new \<and>
           ((\<exists>label l c. AddLayer label l c \<in> set new) \<longrightarrow>
              files w' ''/etc/nrf/nrfcfg.yaml'' \<noteq> None \<and>
              config_before_plan (files w ''/etc/nrf/nrfcfg.yaml'' \<noteq> None) new)))"
proof -
  have "config_before_plan False (calls w)"
    using reachable_invariant [OF assms] by blast
  moreover have "\<exists>new. calls w' = calls w @ new \<and>
           ((\<exists>label l c. AddLayer label l c \<in> set new) \<longrightarrow>
              files w' ''/etc/nrf/nrfcfg.yaml'' \<noteq> None \<and>
              config_before_plan (files w ''/etc/nrf/nrfcfg.yaml'' \<noteq> None) new)"
    if "emit ev w = Inr w'" for ev w'
    using emit_cases [OF that] by blast
  ultimately show ?thesis by blast
qed


theorem config_written_before_plan_witness:
  "\<exists>w1. emit (DatabaseCreatedEvent (Some ''1.2.3.4:1234,5.6.7.8:1111'')) reachable_unit = Inr w1 \<and>
      reachable w1 \<and>
      calls w1 =
        [Push ''/etc/nrf/nrfcfg.yaml''
           ''MongoDBName: free5gc MongoDBUrl: 1.2.3.4:1234 mongoDBStreamEnable: true'',
         AddLayer ''nrf'' pebble_layer True, Replan, SetStatus ActiveStatus,
         SetInfo ''nrf'' ''http://nrf.core.svc.cluster.local:29510''] \<and>
      config_before_plan False (calls w1)"
proof -
  let ?ev = "DatabaseCreatedEvent (Some ''1.2.3.4:1234,5.6.7.8:1111'')"
  let ?w0 = "reachable_unit\<lparr>files := [''/etc/nrf/nrfcfg.yaml'' \<mapsto>
      ''MongoDBName: free5gc MongoDBUrl: 1.2.3.4:1234 mongoDBStreamEnable: true''],
     calls := [Push ''/etc/nrf/nrfcfg.yaml''
        ''MongoDBName: free5gc MongoDBUrl: 1.2.3.4:1234 mongoDBStreamEnable: true'']\<rparr>"
  have on: "can_connect reachable_unit"
    by (simp add: reachable_unit_def related_unit_def fresh_unit_def)
  have ready: "relations ?w0 ''database'' \<noteq> None" "can_connect ?w0"
    "files ?w0 ''/etc/nrf/nrfcfg.yaml'' \<noteq> None"
    by (simp_all add: reachable_unit_def related_unit_def fresh_unit_def)
  have "emit ?ev reachable_unit = on_nrf_pebble_ready ?ev ?w0"
    using database_created_reachable [OF on, of "''1.2.3.4:1234,5.6.7.8:1111''"]
    by (simp add: emit_def reachable_unit_def related_unit_def fresh_unit_def render_def)
  then obtain w1 where w1: "emit ?ev reachable_unit = Inr w1"
    "calls w1 =
        [Push ''/etc/nrf/nrfcfg.yaml''
           ''MongoDBName: free5gc MongoDBUrl: 1.2.3.4:1234 mongoDBStreamEnable: true'',
         AddLayer ''nrf'' pebble_layer True, Replan, SetStatus ActiveStatus,
         SetInfo ''nrf'' ''http://nrf.core.svc.cluster.local:29510'']"
    unfolding pebble_ready_active [OF ready]
    by (simp add: reachable_unit_def related_unit_def fresh_unit_def)
  have "reachable reachable_unit"
    by (rule reachable.start)
      (simp_all add: reachable_unit_def related_unit_def fresh_unit_def)
  then have "reachable w1" using w1(1) by (rule reachable.handle)
  then show ?thesis
    using w1 config_written_before_plan [of w1] by blast
qed

end
